theory Spec2Isabelle
  imports Complex_Main
begin

section \<open>Python values, exceptions and strings\<close>

text \<open>
  The two pipeline stages work on dictionaries read with \<open>json.load\<close>, so a field of a
  job can hold any JSON value. A number of a JSON value is a real. The match scores of
  the keyword strategy are binary floating point numbers and are modelled as such, with
  the rounding of every addition (section \<open>Binary floating point\<close>).
  A string is a list of characters, and a character is a code point below 256, which is
  what the character type holds. On these characters \<open>lower\<close>, the word characters
  \<open>\w\<close> and the white space \<open>\s\<close> are those of Python, the letters, digits and spaces
  above ASCII included.
\<close>

datatype json =
    JNull
  | JBool bool
  | JNum real
  | JStr string
  | JArr "json list"
  | JObj "(string \<times> json) list"

text \<open>The exceptions the two modules can meet; every one of them derives from \<open>Exception\<close>.\<close>

datatype exn =
    KeyError string
  | TypeError
  | AttributeError
  | IndexError
  | FileNotFoundError
  | PermissionError
  | JSONDecodeError
  | APIError
  | APITimeoutError
  | APIConnectionError

text \<open>
  A dictionary with string keys is an association list in insertion order, read with
  \<open>map_of\<close>; \<open>dict_get\<close> is \<open>d.get(k, default)\<close>.
\<close>

type_synonym pydict = "(string \<times> json) list"

definition dict_get :: "pydict \<Rightarrow> string \<Rightarrow> json \<Rightarrow> json" where
  "dict_get d k dflt = (case map_of d k of None \<Rightarrow> dflt | Some v \<Rightarrow> v)"

text \<open>Truth value of a JSON value, as \<open>not x\<close> and \<open>if x\<close> test it.\<close>

fun truthy :: "json \<Rightarrow> bool" where
  "truthy JNull = False"
| "truthy (JBool b) = b"
| "truthy (JNum r) = (r \<noteq> 0)"
| "truthy (JStr s) = (s \<noteq> [])"
| "truthy (JArr xs) = (xs \<noteq> [])"
| "truthy (JObj kvs) = (kvs \<noteq> [])"

definition ascii_uppercase :: string where
  "ascii_uppercase = ''ABCDEFGHIJKLMNOPQRSTUVWXYZ''"

definition ascii_lowercase :: string where
  "ascii_lowercase = ''abcdefghijklmnopqrstuvwxyz''"

definition digits :: string where
  "digits = ''0123456789''"

text \<open>
  The capital letters above ASCII (0xC0 to 0xDE without the multiplication sign 0xD7) and
  their small letters (0xE0 to 0xFE without the division sign 0xF7), in the same order.
\<close>

definition latin_uppercase :: string where
  "latin_uppercase =
    [CHR 0xC0, CHR 0xC1, CHR 0xC2, CHR 0xC3, CHR 0xC4, CHR 0xC5, CHR 0xC6, CHR 0xC7,
     CHR 0xC8, CHR 0xC9, CHR 0xCA, CHR 0xCB, CHR 0xCC, CHR 0xCD, CHR 0xCE, CHR 0xCF,
     CHR 0xD0, CHR 0xD1, CHR 0xD2, CHR 0xD3, CHR 0xD4, CHR 0xD5, CHR 0xD6, CHR 0xD8,
     CHR 0xD9, CHR 0xDA, CHR 0xDB, CHR 0xDC, CHR 0xDD, CHR 0xDE]"

definition latin_lowercase :: string where
  "latin_lowercase =
    [CHR 0xE0, CHR 0xE1, CHR 0xE2, CHR 0xE3, CHR 0xE4, CHR 0xE5, CHR 0xE6, CHR 0xE7,
     CHR 0xE8, CHR 0xE9, CHR 0xEA, CHR 0xEB, CHR 0xEC, CHR 0xED, CHR 0xEE, CHR 0xEF,
     CHR 0xF0, CHR 0xF1, CHR 0xF2, CHR 0xF3, CHR 0xF4, CHR 0xF5, CHR 0xF6, CHR 0xF8,
     CHR 0xF9, CHR 0xFA, CHR 0xFB, CHR 0xFC, CHR 0xFD, CHR 0xFE]"

definition lower_char :: "char \<Rightarrow> char" where
  "lower_char c = (case map_of (zip (ascii_uppercase @ latin_uppercase)
                                    (ascii_lowercase @ latin_lowercase)) c of
                     None \<Rightarrow> c | Some l \<Rightarrow> l)"

text \<open>
  \<open>str.upper()\<close> of one character. The sharp s (0xDF) becomes \<open>SS\<close>. The upper-case
  forms of the micro sign (0xB5) and of the y with diaeresis (0xFF) are code points above
  255, which the character type does not hold: both stay as they are. They are letters
  before and after, and no pattern of the normalizer names a letter above ASCII, so no
  search in the upper-cased text is changed by this.
\<close>

definition upper_char :: "char \<Rightarrow> string" where
  "upper_char c = (if c = CHR 0xDF then ''SS''
                   else case map_of (zip (ascii_lowercase @ latin_lowercase)
                                         (ascii_uppercase @ latin_uppercase)) c of
                          None \<Rightarrow> [c] | Some u \<Rightarrow> [u])"

text \<open>\<open>str.lower()\<close> and \<open>str.upper()\<close>\<close>

definition lower :: "string \<Rightarrow> string" where
  "lower s = map lower_char s"

definition upper :: "string \<Rightarrow> string" where
  "upper s = concat (map upper_char s)"

text \<open>
  \<open>\w\<close>: letters, digits and the underscore; above ASCII the ordinal indicators, the
  micro sign, the superscript digits, the three fractions and the letters.
\<close>

definition latin_word :: string where
  "latin_word =
    [CHR 0xAA, CHR 0xB2, CHR 0xB3, CHR 0xB5, CHR 0xB9, CHR 0xBA, CHR 0xBC, CHR 0xBD,
     CHR 0xBE, CHR 0xDF, CHR 0xFF]"

definition is_word :: "char \<Rightarrow> bool" where
  "is_word c = (c \<in> set (ascii_uppercase @ ascii_lowercase @ digits @ ''_''
                          @ latin_uppercase @ latin_lowercase @ latin_word))"

text \<open>\<open>\s\<close> and \<open>str.isspace\<close>: tab, line feed, vertical tab, form feed, carriage return,
  the four separators 0x1C to 0x1F, the space, the next-line control 0x85 and the
  no-break space 0xA0.\<close>

definition whitespace :: string where
  "whitespace = [CHR 0x09, CHR 0x0A, CHR 0x0B, CHR 0x0C, CHR 0x0D,
                 CHR 0x1C, CHR 0x1D, CHR 0x1E, CHR 0x1F, CHR '' '', CHR 0x85, CHR 0xA0]"

definition is_space :: "char \<Rightarrow> bool" where
  "is_space c = (c \<in> set whitespace)"

text \<open>\<open>str.strip()\<close>\<close>

definition strip :: "string \<Rightarrow> string" where
  "strip s = rev (dropWhile is_space (rev (dropWhile is_space s)))"

text \<open>\<open>t in s\<close> on strings: \<open>t\<close> occurs in \<open>s\<close> as a contiguous run.\<close>

fun starts_with :: "string \<Rightarrow> string \<Rightarrow> bool" where
  "starts_with s [] = True"
| "starts_with [] (y # ys) = False"
| "starts_with (x # xs) (y # ys) = (x = y \<and> starts_with xs ys)"

fun occurs_in :: "string \<Rightarrow> string \<Rightarrow> bool" where
  "occurs_in t [] = (t = [])"
| "occurs_in t (x # xs) = (starts_with (x # xs) t \<or> occurs_in t xs)"

text \<open>\<open>sep.join(xs)\<close>\<close>

fun join :: "string \<Rightarrow> string list \<Rightarrow> string" where
  "join sep [] = []"
| "join sep [x] = x"
| "join sep (x # y # ys) = x @ sep @ join sep (y # ys)"

section \<open>Binary floating point\<close>

text \<open>
  A Python \<open>float\<close> is an IEEE 754 binary64 number. A finite one is modelled by the
  rational it is; \<open>round_double\<close> rounds a rational to the nearest such number, a tie
  going to the even significand: \<open>binade q\<close> is the \<open>e\<close> with \<open>2^e \<le> |q| < 2^(e+1)\<close>
  (not below -1022, where the subnormal numbers begin), and the numbers of that binade
  are the multiples of \<open>2^(e-52)\<close>. A decimal literal denotes the nearest number, and
  \<open>x + y\<close> is the exact sum, rounded. Sums beyond the largest finite number are not
  met: a match score is a sum of at most as many weights below 1 as a program has terms.
\<close>

function bit_length :: "int \<Rightarrow> int" where
  "bit_length n = (if n \<le> 0 then 0 else 1 + bit_length (n div 2))"
  by pat_completeness auto
termination
  by (relation "measure nat") auto

definition pow2 :: "int \<Rightarrow> rat" where
  "pow2 k = (if 0 \<le> k then 2 ^ nat k else 1 / 2 ^ nat (- k))"

definition binade :: "rat \<Rightarrow> int" where
  "binade q =
     (let (p, d) = quotient_of \<bar>q\<bar>;
          k = bit_length p - bit_length d
      in if of_int p < of_int d * pow2 k then k - 1 else k)"

definition round_half_even :: "rat \<Rightarrow> int" where
  "round_half_even q =
     (let f = \<lfloor>q\<rfloor>; r = q - of_int f
      in if r < 1 / 2 then f
         else if 1 / 2 < r then f + 1
         else if even f then f else f + 1)"

definition round_double :: "rat \<Rightarrow> rat" where
  "round_double q =
     (if q = 0 then 0
      else let e = max (binade q) (- 1022); ulp = pow2 (e - 52)
           in of_int (round_half_even (q / ulp)) * ulp)"

definition float_literal :: "rat \<Rightarrow> rat" where
  "float_literal q = round_double q"

definition float_add :: "rat \<Rightarrow> rat \<Rightarrow> rat" where
  "float_add x y = round_double (x + y)"

section \<open>Regular expressions\<close>

text \<open>
  The patterns of the two modules use literals, character classes, \<open>*\<close> and \<open>+\<close> on a
  class, alternation, concatenation and the word boundary \<open>\b\<close>; \<open>LitI\<close> is a literal
  under \<open>re.IGNORECASE\<close>. A cursor is a position in the
  subject: the character before it, if any, and the text from it on. \<open>rx_match\<close> lists
  the cursors at which a match starting at the given cursor can end, in the order in which
  the backtracking matcher of Python tries them (the first alternative first, the longest
  repetition first), so that the head of the list is the match Python reports.
\<close>

datatype regex =
    Lit string
  | LitI string
  | One "char \<Rightarrow> bool"
  | Many0 "char \<Rightarrow> bool"
  | Many1 "char \<Rightarrow> bool"
  | Cat regex regex
  | Alt regex regex
  | WordEdge

type_synonym cursor = "char option \<times> string"

fun advance :: "nat \<Rightarrow> cursor \<Rightarrow> cursor" where
  "advance 0 c = c"
| "advance (Suc n) (p, []) = (p, [])"
| "advance (Suc n) (p, x # xs) = advance n (Some x, xs)"

definition word_before :: "cursor \<Rightarrow> bool" where
  "word_before c = (case fst c of None \<Rightarrow> False | Some x \<Rightarrow> is_word x)"

definition word_after :: "cursor \<Rightarrow> bool" where
  "word_after c = (case snd c of [] \<Rightarrow> False | x # xs \<Rightarrow> is_word x)"

primrec rx_match :: "regex \<Rightarrow> cursor \<Rightarrow> cursor list" where
  "rx_match (Lit l) c = (if starts_with (snd c) l then [advance (length l) c] else [])"
| "rx_match (LitI l) c =
     (if length l \<le> length (snd c) \<and> lower (take (length l) (snd c)) = lower l
      then [advance (length l) c] else [])"
| "rx_match (One P) c =
     (case snd c of [] \<Rightarrow> [] | x # xs \<Rightarrow> if P x then [(Some x, xs)] else [])"
| "rx_match (Many0 P) c =
     map (\<lambda>n. advance n c) (rev [0 ..< Suc (length (takeWhile P (snd c)))])"
| "rx_match (Many1 P) c =
     map (\<lambda>n. advance n c) (rev [1 ..< Suc (length (takeWhile P (snd c)))])"
| "rx_match (Cat a b) c = concat (map (rx_match b) (rx_match a c))"
| "rx_match (Alt a b) c = rx_match a c @ rx_match b c"
| "rx_match WordEdge c = (if word_before c \<noteq> word_after c then [c] else [])"

text \<open>Every position of the subject from a cursor on, the end included.\<close>

fun cursors :: "cursor \<Rightarrow> cursor list" where
  "cursors (p, []) = [(p, [])]"
| "cursors (p, x # xs) = (p, x # xs) # cursors (Some x, xs)"

text \<open>
  \<open>re.search(pattern, s)\<close>: the text of the first match at the leftmost position that
  starts one, or \<open>None\<close>.
\<close>

fun find_from :: "regex \<Rightarrow> cursor list \<Rightarrow> string option" where
  "find_from r [] = None"
| "find_from r (c # cs) =
     (case rx_match r c of
        [] \<Rightarrow> find_from r cs
      | e # es \<Rightarrow> Some (take (length (snd c) - length (snd e)) (snd c)))"

definition re_find :: "regex \<Rightarrow> string \<Rightarrow> string option" where
  "re_find r s = find_from r (cursors (None, s))"

definition re_search :: "regex \<Rightarrow> string \<Rightarrow> bool" where
  "re_search r s = (re_find r s \<noteq> None)"

text \<open>
  \<open>re.sub(pattern, repl, s)\<close> with a literal replacement: the leftmost matches, none
  overlapping another, are replaced from left to right. (No pattern of the two modules
  matches the empty string; there the model inserts the replacement and moves on by one
  character, as Python does.)
\<close>

function re_sub_from :: "regex \<Rightarrow> string \<Rightarrow> cursor \<Rightarrow> string" where
  "re_sub_from r repl c =
     (case rx_match r c of
        [] \<Rightarrow> (case snd c of [] \<Rightarrow> [] | x # xs \<Rightarrow> x # re_sub_from r repl (Some x, xs))
      | e # es \<Rightarrow>
          (if length (snd e) < length (snd c) then repl @ re_sub_from r repl e
           else repl @ (case snd c of [] \<Rightarrow> []
                        | x # xs \<Rightarrow> x # re_sub_from r repl (Some x, xs))))"
  by pat_completeness auto
termination
  by (relation "measure (\<lambda>(r, repl, c). length (snd c))") auto

definition re_sub :: "regex \<Rightarrow> string \<Rightarrow> string \<Rightarrow> string" where
  "re_sub r repl s = re_sub_from r repl (None, s)"

section \<open>The runtime\<close>

text \<open>
  What a call reads from outside the program: the clock, the completion service, and the
  library functions that are left abstract.
  \<^item> \<open>clock_iso\<close> is \<open>datetime.now().isoformat()\<close> and \<open>clock_stamp\<close> is
    \<open>datetime.now().strftime('%Y%m%d_%H%M%S')\<close>; one reading serves a whole call.
  \<^item> \<open>strptime s fmt\<close> is \<open>datetime.strptime(s, fmt).isoformat()\<close>, \<open>None\<close> where
    \<open>strptime\<close> raises \<open>ValueError\<close>.
  \<^item> \<open>py_str\<close> is \<open>str\<close> on a value that is no string, as an f-string formats it.
  \<^item> \<open>json_loads\<close> is \<open>json.loads\<close>, \<open>None\<close> where it raises.
  \<^item> \<open>set_iter xs\<close> is the order in which \<open>set(xs)\<close> is iterated.
  \<^item> \<open>chat_completion\<close> is \<open>openai_client.chat.completions.create\<close>: it raises, or
    returns the message contents of the choices of its response.
\<close>

record chat_request =
  model :: string
  system_message :: string
  user_message :: string
  max_tokens :: int
  temperature :: real

datatype chat_outcome =
    ChatRaises exn
  | ChatChoices "string option list"

record runtime =
  clock_iso :: string
  clock_stamp :: string
  strptime :: "string \<Rightarrow> string \<Rightarrow> string option"
  py_str :: "json \<Rightarrow> string"
  json_loads :: "string \<Rightarrow> json option"
  set_iter :: "string list \<Rightarrow> string list"
  chat_completion :: "chat_request \<Rightarrow> chat_outcome"

section \<open>Job normalization\<close>

text \<open>\<open>_normalize_job_id\<close>; \<open>re.sub\<close> raises \<open>TypeError\<close> on a value that is no string.\<close>

definition id_char :: "char \<Rightarrow> bool" where
  "id_char c = (c \<in> set (ascii_lowercase @ ascii_uppercase @ digits @ ''_-''))"

definition normalize_job_id :: "runtime \<Rightarrow> json \<Rightarrow> exn + string" where
  "normalize_job_id rt job_id =
     (if \<not> truthy job_id then Inr (''normalized_'' @ clock_stamp rt)
      else case job_id of
             JStr s \<Rightarrow> Inr (lower (re_sub (One (\<lambda>c. \<not> id_char c)) ''_'' s))
           | _ \<Rightarrow> Inl TypeError)"

text \<open>\<open>_normalize_title\<close>; \<open>title.strip()\<close> raises \<open>AttributeError\<close> on a value that is
  no string.\<close>

definition normalize_title :: "json \<Rightarrow> exn + string" where
  "normalize_title title =
     (if \<not> truthy title then Inr []
      else case title of
             JStr s \<Rightarrow> Inr (re_sub (Many1 is_space) '' '' (strip s))
           | _ \<Rightarrow> Inl AttributeError)"

definition company_mappings :: "(string \<times> string) list" where
  "company_mappings =
    [(''apex systems'', ''Apex Systems''),
     (''insight global'', ''Insight Global''),
     (''clearancejobs'', ''ClearedJobs''),
     (''clearedjobs.com'', ''ClearedJobs'')]"

definition normalize_company :: "json \<Rightarrow> exn + string" where
  "normalize_company company =
     (if \<not> truthy company then Inr []
      else case company of
             JStr s \<Rightarrow>
               (let normalized = lower (strip s)
                in Inr (case map_of company_mappings normalized of
                          None \<Rightarrow> strip s | Some name \<Rightarrow> name))
           | _ \<Rightarrow> Inl AttributeError)"

definition state_mappings :: "(string \<times> string) list" where
  "state_mappings =
    [(''CA'', ''California''), (''TX'', ''Texas''), (''VA'', ''Virginia''),
     (''MD'', ''Maryland''), (''FL'', ''Florida''), (''WA'', ''Washington''),
     (''MO'', ''Missouri''), (''CT'', ''Connecticut''), (''UT'', ''Utah''),
     (''CO'', ''Colorado'')]"

text \<open>The loop of \<open>_normalize_location\<close> over the state abbreviations.\<close>

fun expand_states :: "(string \<times> string) list \<Rightarrow> string \<Rightarrow> string" where
  "expand_states [] normalized = normalized"
| "expand_states ((abbr, full) # rest) normalized =
     expand_states rest
       (re_sub (Cat WordEdge (Cat (LitI abbr) WordEdge)) full normalized)"

definition normalize_location :: "json \<Rightarrow> exn + string" where
  "normalize_location location =
     (if \<not> truthy location then Inr []
      else case location of
             JStr s \<Rightarrow>
               Inr (expand_states state_mappings (re_sub (Many1 is_space) '' '' (strip s)))
           | _ \<Rightarrow> Inl AttributeError)"

subsection \<open>Clearance extraction\<close>

text \<open>
  \<open>JobNormalizer.clearance_patterns\<close>, in the insertion order of the dictionary, which is
  the order the loop of \<open>_extract_clearance\<close> tries them in. None of the patterns is
  compiled with \<open>re.IGNORECASE\<close>.
\<close>

definition bounded :: "regex \<Rightarrow> regex" where
  "bounded r = Cat WordEdge (Cat r WordEdge)"

definition clearance_patterns :: "(string \<times> regex) list" where
  "clearance_patterns =
    [(''TS/SCI'', bounded (Alt (Lit ''TS/SCI'')
                          (Alt (Cat (Lit ''Top'') (Cat (Many1 is_space) (Lit ''Secret/SCI'')))
                               (Cat (Lit ''Top'') (Cat (Many1 is_space)
                                 (Cat (Lit ''Secret'') (Cat (Many1 is_space) (Lit ''SCI'')))))))),
     (''TS'', bounded (Alt (Lit ''TS'') (Cat (Lit ''Top'') (Cat (Many1 is_space) (Lit ''Secret''))))),
     (''Secret'', bounded (Alt (Lit ''Secret'') (Lit ''SECRET''))),
     (''Confidential'', bounded (Alt (Lit ''Confidential'') (Lit ''CONFIDENTIAL'')))]"

text \<open>The loop over the patterns: the level of the first pattern found in the text.\<close>

fun first_clearance :: "(string \<times> regex) list \<Rightarrow> string \<Rightarrow> string option" where
  "first_clearance [] text = None"
| "first_clearance ((clearance, pattern) # rest) text =
     (if re_search pattern text then Some clearance else first_clearance rest text)"

text \<open>
  \<open>_extract_clearance\<close>: a false description gives \<open>None\<close>; \<open>description.upper()\<close> raises
  \<open>AttributeError\<close> on a value that is true and no string.
\<close>

definition extract_clearance :: "json \<Rightarrow> exn + string option" where
  "extract_clearance description =
     (if \<not> truthy description then Inr None
      else case description of
             JStr d \<Rightarrow> Inr (first_clearance clearance_patterns (upper d))
           | _ \<Rightarrow> Inl AttributeError)"

subsection \<open>Description and date\<close>

text \<open>
  \<open>_clean_description\<close>: tags \<open><[^>]+>\<close> are removed, runs of white space become one
  space, and every character outside \<open>[\w\s\-.,!?()]\<close> is removed.
\<close>

definition safe_char :: "char \<Rightarrow> bool" where
  "safe_char c = (is_word c \<or> is_space c \<or> c \<in> set ''-.,!?()'')"

definition clean_description :: "json \<Rightarrow> exn + string" where
  "clean_description description =
     (if \<not> truthy description then Inr []
      else case description of
             JStr s \<Rightarrow>
               (let cleaned = re_sub (Cat (Lit ''<'')
                                (Cat (Many1 (\<lambda>c. c \<noteq> CHR ''>'')) (Lit ''>''))) [] s;
                    cleaned = re_sub (Many1 is_space) '' '' cleaned;
                    cleaned = re_sub (One (\<lambda>c. \<not> safe_char c)) [] cleaned
                in Inr (strip cleaned))
           | _ \<Rightarrow> Inl TypeError)"

definition date_formats :: "string list" where
  "date_formats = [''%Y-%m-%d'', ''%m/%d/%Y'', ''%d/%m/%Y'', ''%B %d, %Y'', ''%b %d, %Y'']"

text \<open>
  The loop of \<open>_normalize_date\<close> over the formats: a \<open>ValueError\<close> moves on to the next
  format, and \<open>strptime\<close> raises \<open>TypeError\<close> on a value that is no string.
\<close>

fun try_formats :: "runtime \<Rightarrow> json \<Rightarrow> string list \<Rightarrow> exn + string" where
  "try_formats rt date_str [] = Inr (clock_iso rt)"
| "try_formats rt date_str (fmt # fmts) =
     (case date_str of
        JStr s \<Rightarrow> (case strptime rt s fmt of
                     Some parsed_date \<Rightarrow> Inr parsed_date
                   | None \<Rightarrow> try_formats rt date_str fmts)
      | _ \<Rightarrow> Inl TypeError)"

text \<open>\<open>_normalize_date\<close>: the outer handler turns every exception into the current time.\<close>

definition normalize_date :: "runtime \<Rightarrow> json \<Rightarrow> string" where
  "normalize_date rt date_str =
     (if \<not> truthy date_str then clock_iso rt
      else case try_formats rt date_str date_formats of
             Inr parsed_date \<Rightarrow> parsed_date
           | Inl e \<Rightarrow> clock_iso rt)"

subsection \<open>A record and a batch\<close>

text \<open>
  The body of the \<open>try\<close> of \<open>normalize_job\<close>: the fields of the dictionary literal are
  computed in the order they are written, and the first exception leaves the body.
\<close>

definition build_normalized :: "runtime \<Rightarrow> pydict \<Rightarrow> exn + pydict" where
  "build_normalized rt job_data =
     (case normalize_job_id rt (dict_get job_data ''job_id'' (JStr [])) of
        Inl e \<Rightarrow> Inl e
      | Inr job_id \<Rightarrow>
     (case normalize_title (dict_get job_data ''title'' (JStr [])) of
        Inl e \<Rightarrow> Inl e
      | Inr title \<Rightarrow>
     (case normalize_company (dict_get job_data ''company'' (JStr [])) of
        Inl e \<Rightarrow> Inl e
      | Inr company \<Rightarrow>
     (case normalize_location (dict_get job_data ''location'' (JStr [])) of
        Inl e \<Rightarrow> Inl e
      | Inr location \<Rightarrow>
     (case extract_clearance (dict_get job_data ''description'' (JStr [])) of
        Inl e \<Rightarrow> Inl e
      | Inr clearance_level \<Rightarrow>
     (case clean_description (dict_get job_data ''description'' (JStr [])) of
        Inl e \<Rightarrow> Inl e
      | Inr description \<Rightarrow>
          Inr [(''job_id'', JStr job_id),
               (''title'', JStr title),
               (''company'', JStr company),
               (''location'', JStr location),
               (''clearance_level'',
                  (case clearance_level of None \<Rightarrow> JNull | Some level \<Rightarrow> JStr level)),
               (''description'', JStr description),
               (''url'', dict_get job_data ''url'' (JStr [])),
               (''posted_date'',
                  JStr (normalize_date rt (dict_get job_data ''posted_date'' (JStr [])))),
               (''source'', dict_get job_data ''source'' (JStr [])),
               (''scraped_at'', dict_get job_data ''scraped_at'' (JStr (clock_iso rt))),
               (''normalized_at'', JStr (clock_iso rt))]))))))"

text \<open>
  \<open>normalize_job\<close>: the handler logs the exception and returns \<open>None\<close>. The result is
  kept as a sum so that "does not raise" is a statement about the function.
\<close>

definition normalize_job :: "runtime \<Rightarrow> pydict \<Rightarrow> exn + pydict option" where
  "normalize_job rt job_data =
     (case build_normalized rt job_data of
        Inr normalized \<Rightarrow> Inr (Some normalized)
      | Inl e \<Rightarrow> Inr None)"

text \<open>
  The normalization loop of \<open>main\<close>. The runtime of the \<open>i\<close>-th iteration is \<open>rts i\<close>
  (the clock moves on between records); \<open>if normalized:\<close> holds for a dictionary that is
  not empty.
\<close>

fun normalize_loop ::
  "(nat \<Rightarrow> runtime) \<Rightarrow> nat \<Rightarrow> pydict list \<Rightarrow> pydict list \<Rightarrow> exn + pydict list" where
  "normalize_loop rts i [] normalized_jobs = Inr normalized_jobs"
| "normalize_loop rts i (job # jobs) normalized_jobs =
     (case normalize_job (rts i) job of
        Inl e \<Rightarrow> Inl e
      | Inr normalized \<Rightarrow>
          normalize_loop rts (Suc i) jobs
            (case normalized of
               None \<Rightarrow> normalized_jobs
             | Some n \<Rightarrow> if n \<noteq> [] then normalized_jobs @ [n] else normalized_jobs))"

section \<open>Program mapping\<close>

text \<open>
  An entry of the program dictionary has the field types of its schema. \<open>full_name\<close> and
  \<open>prime_contractor\<close> may be absent, which the code meets as a \<open>KeyError\<close> where it
  subscripts and as the default where it calls \<open>get\<close>; the three lists are read with
  \<open>get(key, [])\<close> only, so an absent list is the empty list. A setting that is absent
  from the configuration raises \<open>KeyError\<close> when it is looked up. The threshold of the
  keyword strategy is the floating point number the configuration holds.
\<close>

record program_details =
  full_name :: "string option"
  prime_contractor :: "string option"
  acronyms :: "string list"
  code_names :: "string list"
  key_skills :: "string list"

record engine_settings =
  openai_model :: "string option"
  openai_max_tokens :: "int option"
  openai_temperature :: "real option"
  keyword_match_threshold :: "rat option"

record engine =
  settings :: engine_settings
  programs_dict :: "(string \<times> program_details) list"

text \<open>
  \<open>_load_programs_dictionary\<close>. Its argument is the outcome of opening
  \<open>config/programs_dictionary.json\<close> and of \<open>json.load\<close> on it: the dictionary, or the
  exception raised (\<open>FileNotFoundError\<close> for a missing file, \<open>JSONDecodeError\<close> for text
  that is not JSON). The handler names \<open>FileNotFoundError\<close> alone.
\<close>

definition load_programs_dictionary ::
  "exn + (string \<times> program_details) list \<Rightarrow> exn + (string \<times> program_details) list" where
  "load_programs_dictionary opened =
     (case opened of
        Inr programs \<Rightarrow> Inr programs
      | Inl FileNotFoundError \<Rightarrow> Inr []
      | Inl e \<Rightarrow> Inl e)"

text \<open>A value inside an f-string.\<close>

definition format_value :: "runtime \<Rightarrow> json \<Rightarrow> string" where
  "format_value rt v = (case v of JStr s \<Rightarrow> s | _ \<Rightarrow> py_str rt v)"

subsection \<open>The keyword strategy\<close>

definition job_text :: "runtime \<Rightarrow> pydict \<Rightarrow> string" where
  "job_text rt job_data =
     lower (format_value rt (dict_get job_data ''title'' (JStr [])) @ '' '' @
            format_value rt (dict_get job_data ''description'' (JStr [])))"

text \<open>
  The two inner loops of \<open>_keyword_based_mapping\<close>: every term found in the text adds
  the weight to \<open>match_score\<close>, in floating point, and is appended to
  \<open>matched_keywords\<close>.
\<close>

fun tally :: "rat \<Rightarrow> string \<Rightarrow> string list \<Rightarrow> rat \<times> string list \<Rightarrow> rat \<times> string list" where
  "tally weight text [] (match_score, matched_keywords) = (match_score, matched_keywords)"
| "tally weight text (t # ts) (match_score, matched_keywords) =
     tally weight text ts
       (if occurs_in t text then (float_add match_score weight, matched_keywords @ [t])
        else (match_score, matched_keywords))"

text \<open>The company test; \<open>lower()\<close> raises \<open>AttributeError\<close> on a company that is no string.\<close>

definition company_match :: "pydict \<Rightarrow> program_details \<Rightarrow> exn + bool" where
  "company_match job_data details =
     (let contractor = lower (case prime_contractor details of None \<Rightarrow> [] | Some p \<Rightarrow> p)
      in case dict_get job_data ''company'' (JStr []) of
           JStr company \<Rightarrow> Inr (occurs_in contractor (lower company))
         | _ \<Rightarrow> Inl AttributeError)"

text \<open>The body of the loop over the programs, up to the comparison with the threshold.\<close>

definition score_program :: "string \<Rightarrow> pydict \<Rightarrow> program_details \<Rightarrow> exn + rat \<times> string list" where
  "score_program text job_data details =
     (case full_name details of
        None \<Rightarrow> Inl (KeyError ''full_name'')
      | Some name \<Rightarrow>
          (let program_terms = [lower name] @ map lower (acronyms details)
                                 @ map lower (code_names details);
               program_skills = map lower (key_skills details);
               scored = tally (float_literal 0.2) text program_skills
                          (tally (float_literal 0.3) text program_terms (0, []))
           in case company_match job_data details of
                Inl e \<Rightarrow> Inl e
              | Inr hit \<Rightarrow>
                  Inr (if hit then float_add (fst scored) (float_literal 0.4) else fst scored,
                       snd scored)))"

fun keyword_loop ::
  "engine_settings \<Rightarrow> string \<Rightarrow> pydict \<Rightarrow> (string \<times> program_details) list \<Rightarrow>
   string list \<times> string list \<Rightarrow> exn + string list \<times> string list" where
  "keyword_loop st text job_data [] (mapped_programs, keywords_found) =
     Inr (mapped_programs, keywords_found)"
| "keyword_loop st text job_data ((program_code, details) # rest)
     (mapped_programs, keywords_found) =
     (case score_program text job_data details of
        Inl e \<Rightarrow> Inl e
      | Inr (match_score, matched_keywords) \<Rightarrow>
          (case keyword_match_threshold st of
             None \<Rightarrow> Inl (KeyError ''keyword_match_threshold'')
           | Some threshold \<Rightarrow>
               keyword_loop st text job_data rest
                 (if match_score \<ge> threshold
                  then (mapped_programs @ [program_code], keywords_found @ matched_keywords)
                  else (mapped_programs, keywords_found))))"

text \<open>
  \<open>_keyword_based_mapping\<close>. The confidence \<open>min(0.7, len(mapped_programs) * 0.2)\<close> is
  written with the product as a real number; the floating point product is that number
  rounded.
\<close>

definition keyword_based_mapping :: "engine \<Rightarrow> runtime \<Rightarrow> pydict \<Rightarrow> exn + pydict" where
  "keyword_based_mapping eng rt job_data =
     (case keyword_loop (settings eng) (job_text rt job_data) job_data (programs_dict eng)
             ([], []) of
        Inl e \<Rightarrow> Inl e
      | Inr (mapped_programs, keywords_found) \<Rightarrow>
          Inr [(''job_id'', dict_get job_data ''job_id'' JNull),
               (''mapped_programs'', JArr (map JStr mapped_programs)),
               (''confidence_score'', JNum (min 0.7 (real (length mapped_programs) * 0.2))),
               (''reasoning'',
                  JStr (''Keyword-based mapping using terms: ''
                        @ join '', '' (set_iter rt keywords_found))),
               (''keywords_found'', JArr (map JStr (set_iter rt keywords_found))),
               (''mapped_at'', JStr (clock_iso rt)),
               (''source'', JStr ''keyword_matching'')])"

subsection \<open>The cascade\<close>

definition create_fallback_mapping :: "runtime \<Rightarrow> pydict \<Rightarrow> pydict" where
  "create_fallback_mapping rt job_data =
     [(''job_id'', dict_get job_data ''job_id'' JNull),
      (''mapped_programs'', JArr []),
      (''confidence_score'', JNum 0.0),
      (''reasoning'', JStr ''Failed to analyze job posting''),
      (''keywords_found'', JArr []),
      (''mapped_at'', JStr (clock_iso rt)),
      (''source'', JStr ''fallback'')]"

text \<open>
  The first part of \<open>_parse_ai_response\<close>, inside its \<open>try\<close>: the text from the first
  brace to the last closing brace (\<open>\{.*\}\<close> with \<open>re.DOTALL\<close>) is given to
  \<open>json.loads\<close>. \<open>re.search\<close> raises \<open>TypeError\<close> on a content that is \<open>None\<close>, and
  \<open>parsed.get\<close> raises \<open>AttributeError\<close> on a value that is no dictionary; the handler
  logs either, and the function goes on to the keyword strategy.
\<close>

definition ai_json :: "runtime \<Rightarrow> string option \<Rightarrow> pydict option" where
  "ai_json rt ai_response =
     (case ai_response of
        None \<Rightarrow> None
      | Some text \<Rightarrow>
          (case re_find (Cat (Lit ''{'') (Cat (Many0 (\<lambda>c. True)) (Lit ''}''))) text of
             None \<Rightarrow> None
           | Some json_match \<Rightarrow>
               (case json_loads rt json_match of
                  Some (JObj parsed) \<Rightarrow> Some parsed
                | _ \<Rightarrow> None)))"

definition parse_ai_response ::
  "engine \<Rightarrow> runtime \<Rightarrow> string option \<Rightarrow> pydict \<Rightarrow> exn + pydict" where
  "parse_ai_response eng rt ai_response job_data =
     (case ai_json rt ai_response of
        Some parsed \<Rightarrow>
          Inr [(''job_id'', dict_get job_data ''job_id'' JNull),
               (''mapped_programs'', dict_get parsed ''mapped_programs'' (JArr [])),
               (''confidence_score'', dict_get parsed ''confidence_score'' (JNum 0.0)),
               (''reasoning'', dict_get parsed ''reasoning'' (JStr [])),
               (''keywords_found'', dict_get parsed ''keywords_found'' (JArr [])),
               (''mapped_at'', JStr (clock_iso rt)),
               (''source'', JStr ''ai_analysis'')]
      | None \<Rightarrow> keyword_based_mapping eng rt job_data)"

text \<open>
  \<open>_create_mapping_prompt\<close>: one line for each program, where the subscripts
  \<open>details['full_name']\<close> and \<open>details['prime_contractor']\<close> raise \<open>KeyError\<close> on an
  absent field, and the text of the f-string around them.
\<close>

fun program_lines :: "(string \<times> program_details) list \<Rightarrow> exn + string list" where
  "program_lines [] = Inr []"
| "program_lines ((code, details) # rest) =
     (case full_name details of
        None \<Rightarrow> Inl (KeyError ''full_name'')
      | Some name \<Rightarrow>
     (case prime_contractor details of
        None \<Rightarrow> Inl (KeyError ''prime_contractor'')
      | Some contractor \<Rightarrow>
     (case program_lines rest of
        Inl e \<Rightarrow> Inl e
      | Inr info \<Rightarrow> Inr ((''- '' @ code @ '': '' @ name @ '' ('' @ contractor @ '')'') # info))))"

definition newline :: string where
  "newline = [CHR 0x0A]"

definition indent :: string where
  "indent = replicate 8 (CHR '' '')"

definition create_mapping_prompt :: "engine \<Rightarrow> runtime \<Rightarrow> pydict \<Rightarrow> exn + string" where
  \<open>create_mapping_prompt eng rt job_data =
     (case program_lines (programs_dict eng) of
        Inl e \<Rightarrow> Inl e
      | Inr info \<Rightarrow>
          Inr (join newline
            [[],
             indent @ ''Analyze this job posting and map it to relevant defense programs.'',
             indent,
             indent @ ''Job Details:'',
             indent @ ''- Title: '' @ format_value rt (dict_get job_data ''title'' (JStr ''N/A'')),
             indent @ ''- Company: ''
               @ format_value rt (dict_get job_data ''company'' (JStr ''N/A'')),
             indent @ ''- Location: ''
               @ format_value rt (dict_get job_data ''location'' (JStr ''N/A'')),
             indent @ ''- Clearance: ''
               @ format_value rt (dict_get job_data ''clearance_level'' (JStr ''N/A'')),
             indent @ ''- Description: ''
               @ format_value rt (dict_get job_data ''description'' (JStr ''N/A'')),
             indent,
             indent @ ''Available Programs:'',
             indent @ join newline info,
             indent,
             indent @ ''Please provide:'',
             indent @ ''1. List of relevant programs (program codes)'',
             indent @ ''2. Confidence score (0.0-1.0)'',
             indent @ ''3. Reasoning for the mapping'',
             indent @ ''4. Key keywords that support the mapping'',
             indent,
             indent @ ''Format your response as JSON:'',
             indent @ ''{'',
             indent @ ''    "mapped_programs": ["PROGRAM1", "PROGRAM2"],'',
             indent @ ''    "confidence_score": 0.85,'',
             indent @ ''    "reasoning": "Explanation here",'',
             indent @ ''    "keywords_found": ["keyword1", "keyword2"]'',
             indent @ ''}'',
             indent]))\<close>

text \<open>
  The arguments of the call of the service, computed before the call: the prompt and
  the three settings of the request.
\<close>

definition build_request :: "engine \<Rightarrow> runtime \<Rightarrow> pydict \<Rightarrow> exn + chat_request" where
  "build_request eng rt job_data =
     (case create_mapping_prompt eng rt job_data of
        Inl e \<Rightarrow> Inl e
      | Inr prompt \<Rightarrow>
     (case openai_model (settings eng) of
        None \<Rightarrow> Inl (KeyError ''model'')
      | Some m \<Rightarrow>
     (case openai_max_tokens (settings eng) of
        None \<Rightarrow> Inl (KeyError ''max_tokens'')
      | Some n \<Rightarrow>
     (case openai_temperature (settings eng) of
        None \<Rightarrow> Inl (KeyError ''temperature'')
      | Some t \<Rightarrow>
          Inr \<lparr>model = m,
               system_message =
                 ''You are an expert in defense industry programs and job analysis.'',
               user_message = prompt, max_tokens = n, temperature = t\<rparr>))))"

text \<open>
  The body of the \<open>try\<close> of \<open>map_job_to_programs\<close>: the request, the call of the
  service, the first choice of the response (an \<open>IndexError\<close> when there is none), and
  the parse of its content.
\<close>

definition analyse_job :: "engine \<Rightarrow> runtime \<Rightarrow> pydict \<Rightarrow> exn + pydict" where
  "analyse_job eng rt job_data =
     (case build_request eng rt job_data of
        Inl e \<Rightarrow> Inl e
      | Inr request \<Rightarrow>
          (case chat_completion rt request of
             ChatRaises e \<Rightarrow> Inl e
           | ChatChoices [] \<Rightarrow> Inl IndexError
           | ChatChoices (ai_analysis # others) \<Rightarrow>
               parse_ai_response eng rt ai_analysis job_data))"

text \<open>
  \<open>map_job_to_programs\<close>: the handler \<open>except Exception\<close> logs the exception and returns
  the fallback mapping. The result is kept as a sum so that "does not raise" is a
  statement about the function.
\<close>

definition map_job_to_programs :: "engine \<Rightarrow> runtime \<Rightarrow> pydict \<Rightarrow> exn + pydict" where
  "map_job_to_programs eng rt job_data =
     (case analyse_job eng rt job_data of
        Inr mapping_result \<Rightarrow> Inr mapping_result
      | Inl e \<Rightarrow> Inr (create_fallback_mapping rt job_data))"

text \<open>
  The loop of \<open>process_jobs_batch\<close> over the loaded jobs; the runtime of the \<open>i\<close>-th
  iteration is \<open>rts i\<close> (the clock and the service move on between jobs). An exception
  that leaves \<open>map_job_to_programs\<close> would leave the loop.
\<close>

fun process_jobs_loop ::
  "engine \<Rightarrow> (nat \<Rightarrow> runtime) \<Rightarrow> nat \<Rightarrow> pydict list \<Rightarrow> pydict list \<Rightarrow> exn + pydict list" where
  "process_jobs_loop eng rts i [] mapping_results = Inr mapping_results"
| "process_jobs_loop eng rts i (job # jobs) mapping_results =
     (case map_job_to_programs eng (rts i) job of
        Inl e \<Rightarrow> Inl e
      | Inr result \<Rightarrow> process_jobs_loop eng rts (Suc i) jobs (mapping_results @ [result]))"

definition process_jobs_batch :: "engine \<Rightarrow> (nat \<Rightarrow> runtime) \<Rightarrow> pydict list \<Rightarrow> exn + pydict list" where
  "process_jobs_batch eng rts jobs = process_jobs_loop eng rts 0 jobs []"

section \<open>The scoring rule of the specification and an example\<close>

text \<open>
  The keyword score as the specification words it: starting from 0, 0.3 is added for
  each of the full name, the acronyms and the code names that occurs in the text, then
  0.2 for each key skill that occurs, then 0.4 when the prime contractor occurs in the
  company, all in lower case. \<open>add_each weight found start\<close> adds the weight once for
  each element of \<open>found\<close>, in floating point as the program adds.
\<close>

definition add_each :: "rat \<Rightarrow> string list \<Rightarrow> rat \<Rightarrow> rat" where
  "add_each weight found start = foldl (\<lambda>score t. float_add score weight) start found"

definition spec_terms :: "program_details \<Rightarrow> string list" where
  "spec_terms details =
     (case full_name details of None \<Rightarrow> [] | Some name \<Rightarrow> [lower name])
     @ map lower (acronyms details) @ map lower (code_names details)"

definition spec_found :: "string \<Rightarrow> program_details \<Rightarrow> string list" where
  "spec_found text details =
     filter (\<lambda>t. occurs_in t text) (spec_terms details)
     @ filter (\<lambda>s. occurs_in s text) (map lower (key_skills details))"

definition spec_contractor_hit :: "string \<Rightarrow> program_details \<Rightarrow> bool" where
  "spec_contractor_hit company details =
     occurs_in (lower (case prime_contractor details of None \<Rightarrow> [] | Some p \<Rightarrow> p))
       (lower company)"

definition spec_score :: "string \<Rightarrow> string \<Rightarrow> program_details \<Rightarrow> rat" where
  "spec_score text company details =
     (let from_terms = add_each (float_literal 0.3)
                         (filter (\<lambda>t. occurs_in t text) (spec_terms details)) 0;
          from_skills = add_each (float_literal 0.2)
                          (filter (\<lambda>s. occurs_in s text) (map lower (key_skills details)))
                          from_terms
      in if spec_contractor_hit company details
         then float_add from_skills (float_literal 0.4) else from_skills)"

text \<open>
  The end-to-end scenario of the specification: the program F35 of Lockheed Martin with
  the key skill avionics, a threshold of 0.5, and a systems engineer's posting.
\<close>

definition example_programs :: "(string \<times> program_details) list" where
  "example_programs =
     [(''F35'', \<lparr>full_name = Some ''F-35 Lightning II'',
                prime_contractor = Some ''Lockheed Martin'',
                acronyms = [], code_names = [], key_skills = [''avionics'']\<rparr>)]"

definition example_engine :: engine where
  "example_engine =
     \<lparr>settings = \<lparr>openai_model = Some ''gpt-4'', openai_max_tokens = Some 1000,
                  openai_temperature = Some 0.1, keyword_match_threshold = Some 0.5\<rparr>,
      programs_dict = example_programs\<rparr>"

text \<open>A runtime whose service gives one fixed outcome and whose JSON parser rejects
  every text.\<close>

definition example_runtime :: "chat_outcome \<Rightarrow> runtime" where
  "example_runtime outcome =
     \<lparr>clock_iso = ''2024-01-01T00:00:00'', clock_stamp = ''20240101_000000'',
      strptime = (\<lambda>s fmt. None), py_str = (\<lambda>v. ''None''),
      json_loads = (\<lambda>s. None), set_iter = remdups,
      chat_completion = (\<lambda>request. outcome)\<rparr>"

definition example_raw :: pydict where
  "example_raw =
     [(''job_id'', JStr ''IG 1042''),
      (''title'', JStr ''Systems   Engineer ''),
      (''company'', JStr ''Lockheed Martin''),
      (''description'',
         JStr ''Requires active Secret clearance, work on F-35 program avionics''),
      (''source'', JStr ''insight_global''),
      (''scraped_at'', JStr ''2023-12-31T08:00:00'')]"

definition example_job :: pydict where
  "example_job =
     [(''job_id'', JStr ''ig_1042''),
      (''title'', JStr ''Systems Engineer''),
      (''company'', JStr ''Lockheed Martin''),
      (''description'',
         JStr ''Requires active Secret clearance, work on F-35 program avionics'')]"

section \<open>Properties\<close>

subsection \<open>Clearance extraction\<close>

text \<open>
  Claim C2, evaluated at the text \<open>Top Secret/SCI\<close>. The extractor upper-cases the text and
  then searches it with the case-sensitive patterns: in \<open>TOP SECRET/SCI\<close> neither the
  \<open>TS/SCI\<close> pattern nor the \<open>TS\<close> pattern (whose \<open>Top\<close> and \<open>Secret\<close> are in mixed case)
  is found, and the third pattern finds \<open>SECRET\<close>. The extractor returns \<open>Secret\<close>.
\<close>

theorem extract_clearance_top_secret_sci:
  "extract_clearance (JStr ''Top Secret/SCI'') = Inr (Some ''Secret'')"
  by code_simp

text \<open>The literal spelling is found, in either case, and it is found before \<open>Secret\<close>.\<close>

lemma extract_clearance_ts_sci_literal:
  "extract_clearance (JStr ''Active ts/sci or Secret clearance'') = Inr (Some ''TS/SCI'')"
  by code_simp

subsection \<open>The keyword strategy\<close>

text \<open>The two inner loops in closed form, and with them the body of the outer loop.\<close>

lemma occurs_in_empty: "occurs_in [] s"
  by (cases s) simp_all

lemma lower_empty: "lower [] = []"
  by (simp add: lower_def)

lemma tally_closed:
  "tally w text ts (s, m) =
     (add_each w (filter (\<lambda>t. occurs_in t text) ts) s,
      m @ filter (\<lambda>t. occurs_in t text) ts)"
  by (induction ts arbitrary: s m) (simp_all add: add_each_def)

lemma company_match_string:
  "dict_get job_data ''company'' (JStr []) = JStr company \<Longrightarrow>
   company_match job_data details = Inr (spec_contractor_hit company details)"
  by (simp add: company_match_def spec_contractor_hit_def)

lemma score_program_closed:
  assumes "full_name details = Some name"
      and "dict_get job_data ''company'' (JStr []) = JStr company"
  shows "score_program text job_data details =
           Inr (spec_score text company details, spec_found text details)"
  using assms
  by (simp add: score_program_def company_match_string tally_closed spec_score_def
        spec_found_def spec_terms_def Let_def)


lemma keyword_result_fields:
  assumes "keyword_based_mapping eng rt job_data = Inr r"
  shows "\<exists>codes. dict_get r ''mapped_programs'' JNull = JArr (map JStr codes)
               \<and> dict_get r ''confidence_score'' JNull
                     = JNum (min 0.7 (0.2 * real (length codes)))
               \<and> dict_get r ''source'' JNull = JStr ''keyword_matching''
               \<and> dict_get r ''job_id'' JNull = dict_get job_data ''job_id'' JNull"
  using assms
  by (auto simp: keyword_based_mapping_def dict_get_def mult.commute
           split: sum.splits prod.splits)



text \<open>
  The sums are those of the program, not those of exact arithmetic: three terms of 0.3
  each give 0.8999999999999999, which is below a threshold of 0.9, and the program is
  not mapped.
\<close>

lemma three_terms_below_nine_tenths:
  "score_program ''gps iii engineer navstar gps ground segment''
     [(''company'', JStr ''Acme Staffing'')]
     \<lparr>full_name = Some ''GPS III'', prime_contractor = Some ''Lockheed Martin'',
      acronyms = [''GPS''], code_names = [''Navstar''], key_skills = []\<rparr>
     = Inr (2026619832316723 / 2251799813685248, [''gps iii'', ''gps'', ''navstar''])
   \<and> float_literal 0.9 = 8106479329266893 / 9007199254740992
   \<and> (2026619832316723 / 2251799813685248 :: rat) < 8106479329266893 / 9007199254740992"
  by code_simp

text \<open>
  Claim C6. In every result of the keyword strategy \<open>confidence_score\<close> is
  \<open>min(0.7, 0.2 * n)\<close> for the number \<open>n\<close> of mapped programs; it is at most 0.7;
  and of two results the one with no more mapped programs has no greater confidence.
\<close>

theorem keyword_confidence_capped:
  assumes "keyword_based_mapping eng rt job_data = Inr r"
      and "keyword_based_mapping eng' rt' job_data' = Inr r'"
  shows "\<exists>codes codes'.
           dict_get r ''mapped_programs'' JNull = JArr (map JStr codes)
         \<and> dict_get r' ''mapped_programs'' JNull = JArr (map JStr codes')
         \<and> dict_get r ''confidence_score'' JNull = JNum (min 0.7 (0.2 * real (length codes)))
         \<and> dict_get r' ''confidence_score'' JNull
               = JNum (min 0.7 (0.2 * real (length codes')))
         \<and> min 0.7 (0.2 * real (length codes)) \<le> (0.7 :: real)
         \<and> (length codes \<le> length codes' \<longrightarrow>
               min 0.7 (0.2 * real (length codes)) \<le> (min 0.7 (0.2 * real (length codes')) :: real))"
proof -
  from keyword_result_fields [OF assms(1)] obtain codes where
    c: "dict_get r ''mapped_programs'' JNull = JArr (map JStr codes)"
       "dict_get r ''confidence_score'' JNull = JNum (min 0.7 (0.2 * real (length codes)))"
    by blast
  from keyword_result_fields [OF assms(2)] obtain codes' where
    c': "dict_get r' ''mapped_programs'' JNull = JArr (map JStr codes')"
        "dict_get r' ''confidence_score'' JNull = JNum (min 0.7 (0.2 * real (length codes')))"
    by blast
  have "length codes \<le> length codes' \<longrightarrow>
          min 0.7 (0.2 * real (length codes)) \<le> (min 0.7 (0.2 * real (length codes')) :: real)"
    by (auto simp: min_def)
  with c c' show ?thesis by (intro exI [of _ codes] exI [of _ codes']) simp
qed

text \<open>The keyword strategy on the example: one program is mapped.\<close>

lemma example_keyword_result:
  "keyword_based_mapping example_engine (example_runtime outcome) example_job =
     Inr [(''job_id'', JStr ''ig_1042''),
          (''mapped_programs'', JArr [JStr ''F35'']),
          (''confidence_score'', JNum 0.2),
          (''reasoning'', JStr ''Keyword-based mapping using terms: avionics''),
          (''keywords_found'', JArr [JStr ''avionics'']),
          (''mapped_at'', JStr ''2024-01-01T00:00:00''),
          (''source'', JStr ''keyword_matching'')]"
  by code_simp

theorem keyword_confidence_capped_witness:
  "\<exists>r r'. keyword_based_mapping (example_engine\<lparr>programs_dict := []\<rparr>)
              (example_runtime (ChatRaises APIError)) example_job = Inr r
         \<and> keyword_based_mapping example_engine
              (example_runtime (ChatRaises APIError)) example_job = Inr r'
         \<and> dict_get r ''confidence_score'' JNull = JNum 0
         \<and> dict_get r' ''confidence_score'' JNull = JNum 0.2"
proof -
  let ?rt = "example_runtime (ChatRaises APIError)"
  let ?e0 = "example_engine\<lparr>programs_dict := []\<rparr>"
  obtain r where r: "keyword_based_mapping ?e0 ?rt example_job = Inr r"
                    "dict_get r ''mapped_programs'' JNull = JArr []"
    by (simp add: keyword_based_mapping_def dict_get_def)
  have "\<exists>r'. keyword_based_mapping example_engine ?rt example_job = Inr r'
            \<and> dict_get r' ''mapped_programs'' JNull = JArr [JStr ''F35'']"
    by (simp add: example_keyword_result dict_get_def)
  then obtain r' where r': "keyword_based_mapping example_engine ?rt example_job = Inr r'"
                     "dict_get r' ''mapped_programs'' JNull = JArr [JStr ''F35'']"
    by blast
  from keyword_confidence_capped [OF r(1) r'(1)] obtain codes codes' where
    c: "dict_get r ''mapped_programs'' JNull = JArr (map JStr codes)"
       "dict_get r' ''mapped_programs'' JNull = JArr (map JStr codes')"
       "dict_get r ''confidence_score'' JNull = JNum (min 0.7 (0.2 * real (length codes)))"
       "dict_get r' ''confidence_score'' JNull = JNum (min 0.7 (0.2 * real (length codes')))"
    by blast
  from c(1) r(2) have "codes = []" by simp
  moreover from c(2) r'(2) have "length codes' = 1"
    by (cases codes') auto
  ultimately show ?thesis using r(1) r'(1) c(3,4) by auto
qed

text \<open>
  Claim C10. For a program whose \<open>prime_contractor\<close> is absent or the empty string, the
  company test of the keyword strategy succeeds whatever the company of the job is, and
  the program's score is the score of its terms and skills with 0.4 added. (In
  \<open>map_job_to_programs\<close> an absent \<open>prime_contractor\<close> is met earlier, when the prompt
  is built, as a \<open>KeyError\<close>; the claim is about the keyword strategy.)
\<close>

theorem empty_contractor_always_matches:
  assumes "prime_contractor details = None \<or> prime_contractor details = Some []"
      and "dict_get job_data ''company'' (JStr []) = JStr company"
  shows "company_match job_data details = Inr True
       \<and> (\<forall>name. full_name details = Some name \<longrightarrow>
             score_program text job_data details =
               Inr (float_add
                      (add_each (float_literal 0.2)
                         (filter (\<lambda>s. occurs_in s text) (map lower (key_skills details)))
                         (add_each (float_literal 0.3)
                            (filter (\<lambda>t. occurs_in t text) (spec_terms details)) 0))
                      (float_literal 0.4),
                    spec_found text details))"
proof -
  have hit: "spec_contractor_hit company details"
    using assms(1) by (auto simp: spec_contractor_hit_def lower_empty occurs_in_empty)
  show ?thesis
    using hit score_program_closed [OF _ assms(2), of details _ "text"]
    by (simp add: company_match_string [OF assms(2)] spec_score_def Let_def)
qed

theorem empty_contractor_always_matches_witness:
  "company_match [(''company'', JStr ''Acme Staffing'')]
     \<lparr>full_name = Some ''Aegis Combat System'', prime_contractor = Some [],
      acronyms = [], code_names = [], key_skills = []\<rparr> = Inr True
   \<and> score_program ''welder night shift'' [(''company'', JStr ''Acme Staffing'')]
     \<lparr>full_name = Some ''Aegis Combat System'', prime_contractor = Some [],
      acronyms = [], code_names = [], key_skills = []\<rparr>
     = Inr (float_add 0 (float_literal 0.4), [])
   \<and> float_add 0 (float_literal 0.4) = 3602879701896397 / 9007199254740992"
proof -
  let ?d = "\<lparr>full_name = Some ''Aegis Combat System'', prime_contractor = Some [],
             acronyms = [], code_names = [], key_skills = []\<rparr>"
  let ?j = "[(''company'', JStr ''Acme Staffing'')]"
  have h1: "prime_contractor ?d = None \<or> prime_contractor ?d = Some []" by simp
  have h2: "dict_get ?j ''company'' (JStr []) = JStr ''Acme Staffing''"
    by (simp add: dict_get_def)
  have terms: "filter (\<lambda>t. occurs_in t ''welder night shift'') (spec_terms ?d) = []"
    by code_simp
  have found: "spec_found ''welder night shift'' ?d = []"
    by code_simp
  have total: "float_add 0 (float_literal 0.4) = 3602879701896397 / 9007199254740992"
    by code_simp
  from empty_contractor_always_matches [OF h1 h2, of "''welder night shift''"]
  have "company_match ?j ?d = Inr True
        \<and> score_program ''welder night shift'' ?j ?d = Inr (float_add 0 (float_literal 0.4), [])"
    by (simp del: occurs_in.simps add: terms found add_each_def)
  with total show ?thesis by blast
qed

subsection \<open>The cascade\<close>

lemma fallback_fields:
  "dict_get (create_fallback_mapping rt job_data) ''source'' JNull = JStr ''fallback''"
  "dict_get (create_fallback_mapping rt job_data) ''mapped_programs'' JNull = JArr []"
  "dict_get (create_fallback_mapping rt job_data) ''confidence_score'' JNull = JNum 0"
  "dict_get (create_fallback_mapping rt job_data) ''job_id'' JNull
     = dict_get job_data ''job_id'' JNull"
  by (simp_all add: create_fallback_mapping_def dict_get_def)

lemma map_job_cases:
  "map_job_to_programs eng rt job_data =
     Inr (case analyse_job eng rt job_data of
            Inr r \<Rightarrow> r | Inl e \<Rightarrow> create_fallback_mapping rt job_data)"
  by (simp add: map_job_to_programs_def split: sum.splits)

lemma keyword_empty_dictionary:
  assumes "programs_dict eng = []"
  shows "\<exists>r. keyword_based_mapping eng rt job_data = Inr r
           \<and> dict_get r ''mapped_programs'' JNull = JArr []
           \<and> dict_get r ''confidence_score'' JNull = JNum 0"
  using assms by (simp add: keyword_based_mapping_def dict_get_def)

lemma ai_result_source:
  assumes "ai_json rt c = Some parsed"
  shows "\<exists>r. parse_ai_response eng rt c job_data = Inr r
           \<and> dict_get r ''source'' JNull = JStr ''ai_analysis''
           \<and> dict_get r ''job_id'' JNull = dict_get job_data ''job_id'' JNull"
  using assms by (simp add: parse_ai_response_def dict_get_def)

lemma example_request:
  "\<exists>request. build_request example_engine (example_runtime outcome) example_job = Inr request"
  by (simp add: build_request_def create_mapping_prompt_def example_engine_def
        example_programs_def)

text \<open>
  Claim C1, as the code has it. Let the request be built (the prompt and the settings
  raise nothing). If the call of the service raises (a service error, a timeout, a
  network failure), \<open>map_job_to_programs\<close> returns the fallback mapping: the handler of
  \<open>map_job_to_programs\<close> is the only one around the call. If the service answers and
  the content of its first choice holds no JSON object that can be parsed (\<open>ai_json\<close> is
  \<open>None\<close>: the content is \<open>None\<close>, or no brace pair is found, or \<open>json.loads\<close> raises
  or gives no dictionary), the result is the result of the keyword strategy for the same
  job, whose source is \<open>keyword_matching\<close>.
\<close>

theorem semantic_failure_outcomes:
  assumes "build_request eng rt job_data = Inr request"
  shows "(\<forall>e. chat_completion rt request = ChatRaises e \<longrightarrow>
            map_job_to_programs eng rt job_data = Inr (create_fallback_mapping rt job_data))
       \<and> (\<forall>c cs k. chat_completion rt request = ChatChoices (c # cs)
                   \<and> ai_json rt c = None
                   \<and> keyword_based_mapping eng rt job_data = Inr k \<longrightarrow>
            map_job_to_programs eng rt job_data = Inr k
            \<and> dict_get k ''source'' JNull = JStr ''keyword_matching'')"
proof (intro conjI allI impI)
  fix e assume "chat_completion rt request = ChatRaises e"
  with assms show "map_job_to_programs eng rt job_data
                     = Inr (create_fallback_mapping rt job_data)"
    by (simp add: map_job_cases analyse_job_def)
next
  fix c cs k
  assume h: "chat_completion rt request = ChatChoices (c # cs)
               \<and> ai_json rt c = None \<and> keyword_based_mapping eng rt job_data = Inr k"
  with assms show "map_job_to_programs eng rt job_data = Inr k"
    by (simp add: map_job_cases analyse_job_def parse_ai_response_def)
  from h keyword_result_fields [of eng rt job_data k]
  show "dict_get k ''source'' JNull = JStr ''keyword_matching''" by blast
qed

theorem semantic_failure_outcomes_witness:
  "map_job_to_programs example_engine (example_runtime (ChatRaises APIConnectionError))
     example_job
     = Inr (create_fallback_mapping (example_runtime (ChatRaises APIConnectionError))
              example_job)
   \<and> (\<exists>k. map_job_to_programs example_engine
              (example_runtime (ChatChoices [Some ''I cannot answer that.'']))
              example_job = Inr k
          \<and> dict_get k ''source'' JNull = JStr ''keyword_matching''
          \<and> dict_get k ''mapped_programs'' JNull = JArr [JStr ''F35''])"
proof -
  let ?down = "example_runtime (ChatRaises APIConnectionError)"
  let ?prose = "example_runtime (ChatChoices [Some ''I cannot answer that.''])"
  obtain r1 where r1: "build_request example_engine ?down example_job = Inr r1"
    using example_request by blast
  obtain r2 where r2: "build_request example_engine ?prose example_job = Inr r2"
    using example_request by blast
  have c1: "chat_completion ?down r1 = ChatRaises APIConnectionError"
    by (simp add: example_runtime_def)
  have c2: "chat_completion ?prose r2 = ChatChoices [Some ''I cannot answer that.'']"
    by (simp add: example_runtime_def)
  have unparsed: "ai_json ?prose (Some ''I cannot answer that.'') = None"
    by code_simp
  note k = example_keyword_result [of "ChatChoices [Some ''I cannot answer that.'']"]
  from semantic_failure_outcomes [OF r1] c1
  have first: "map_job_to_programs example_engine ?down example_job
                 = Inr (create_fallback_mapping ?down example_job)"
    by blast
  from semantic_failure_outcomes [OF r2] c2 unparsed k
  have second: "map_job_to_programs example_engine ?prose example_job
                  = keyword_based_mapping example_engine ?prose example_job"
    by metis
  show ?thesis
    using first second by (simp add: k dict_get_def)
qed

text \<open>
  Claim C1 as stated fails where the service times out: the result for the example job
  is the fallback mapping, with no program and the source \<open>fallback\<close>, while the keyword
  strategy maps the same job to F35 with the source \<open>keyword_matching\<close>.
\<close>

theorem semantic_failure_counterexample:
  "map_job_to_programs example_engine (example_runtime (ChatRaises APITimeoutError))
     example_job =
     Inr [(''job_id'', JStr ''ig_1042''),
          (''mapped_programs'', JArr []),
          (''confidence_score'', JNum 0),
          (''reasoning'', JStr ''Failed to analyze job posting''),
          (''keywords_found'', JArr []),
          (''mapped_at'', JStr ''2024-01-01T00:00:00''),
          (''source'', JStr ''fallback'')]
   \<and> keyword_based_mapping example_engine (example_runtime (ChatRaises APITimeoutError))
     example_job =
     Inr [(''job_id'', JStr ''ig_1042''),
          (''mapped_programs'', JArr [JStr ''F35'']),
          (''confidence_score'', JNum 0.2),
          (''reasoning'', JStr ''Keyword-based mapping using terms: avionics''),
          (''keywords_found'', JArr [JStr ''avionics'']),
          (''mapped_at'', JStr ''2024-01-01T00:00:00''),
          (''source'', JStr ''keyword_matching'')]"
  by code_simp

text \<open>The three kinds of result have the seven fields of a mapping result.\<close>

lemma keyword_result_keys:
  assumes "keyword_based_mapping eng rt job_data = Inr r"
  shows "map fst r = [''job_id'', ''mapped_programs'', ''confidence_score'', ''reasoning'',
                      ''keywords_found'', ''mapped_at'', ''source'']"
  using assms
  by (auto simp: keyword_based_mapping_def split: sum.splits prod.splits)

lemma parsed_result_keys:
  assumes "parse_ai_response eng rt c job_data = Inr r"
  shows "map fst r = [''job_id'', ''mapped_programs'', ''confidence_score'', ''reasoning'',
                      ''keywords_found'', ''mapped_at'', ''source'']"
  using assms keyword_result_keys [of eng rt job_data r]
  by (auto simp: parse_ai_response_def split: option.splits)

lemma parsed_result_source:
  assumes "parse_ai_response eng rt c job_data = Inr r"
  shows "dict_get r ''job_id'' JNull = dict_get job_data ''job_id'' JNull
       \<and> (dict_get r ''source'' JNull = JStr ''ai_analysis''
          \<or> dict_get r ''source'' JNull = JStr ''keyword_matching'')"
proof (cases "ai_json rt c")
  case None
  with assms have "keyword_based_mapping eng rt job_data = Inr r"
    by (simp add: parse_ai_response_def)
  from keyword_result_fields [OF this] show ?thesis by blast
next
  case (Some parsed)
  from ai_result_source [OF Some, of eng job_data] assms show ?thesis by auto
qed

lemma analysed_result:
  assumes "analyse_job eng rt job_data = Inr r"
  shows "\<exists>c. parse_ai_response eng rt c job_data = Inr r"
  using assms
  by (auto simp: analyse_job_def split: sum.splits chat_outcome.splits list.splits)

text \<open>
  Claim C3. For every job dictionary \<open>map_job_to_programs\<close> raises nothing and returns a
  mapping result: a dictionary with the seven fields of a mapping result, in their
  order, that carries the \<open>job_id\<close> of the job and whose source is one of
  \<open>ai_analysis\<close>, \<open>keyword_matching\<close> and \<open>fallback\<close>. Where the body of the \<open>try\<close>
  returns, its result is returned unchanged; where it raises, whatever the exception,
  the result is the fallback mapping, whose source is \<open>fallback\<close>, whose
  \<open>mapped_programs\<close> is empty and whose \<open>confidence_score\<close> is 0.0.
\<close>

theorem map_job_never_raises:
  "\<exists>r. map_job_to_programs eng rt job_data = Inr r
      \<and> map fst r = [''job_id'', ''mapped_programs'', ''confidence_score'', ''reasoning'',
                       ''keywords_found'', ''mapped_at'', ''source'']
      \<and> dict_get r ''job_id'' JNull = dict_get job_data ''job_id'' JNull
      \<and> (dict_get r ''source'' JNull = JStr ''ai_analysis''
         \<or> dict_get r ''source'' JNull = JStr ''keyword_matching''
         \<or> dict_get r ''source'' JNull = JStr ''fallback'')
      \<and> (\<forall>r'. analyse_job eng rt job_data = Inr r' \<longrightarrow> r = r')
      \<and> (\<forall>e. analyse_job eng rt job_data = Inl e \<longrightarrow>
             r = create_fallback_mapping rt job_data
           \<and> dict_get r ''source'' JNull = JStr ''fallback''
           \<and> dict_get r ''mapped_programs'' JNull = JArr []
           \<and> dict_get r ''confidence_score'' JNull = JNum 0.0)"
proof (cases "analyse_job eng rt job_data")
  case (Inl e)
  let ?r = "create_fallback_mapping rt job_data"
  have "map_job_to_programs eng rt job_data = Inr ?r"
    using Inl by (simp add: map_job_cases)
  moreover have "map fst ?r = [''job_id'', ''mapped_programs'', ''confidence_score'',
                               ''reasoning'', ''keywords_found'', ''mapped_at'', ''source'']"
    by (simp add: create_fallback_mapping_def)
  ultimately show ?thesis
    using Inl by (intro exI [of _ ?r]) (simp add: fallback_fields)
next
  case (Inr r)
  from analysed_result [OF Inr] obtain c where
    c: "parse_ai_response eng rt c job_data = Inr r" by blast
  have "map_job_to_programs eng rt job_data = Inr r"
    using Inr by (simp add: map_job_cases)
  then show ?thesis
    using Inr parsed_result_keys [OF c] parsed_result_source [OF c]
    by (intro exI [of _ r]) auto
qed

theorem map_job_never_raises_witness:
  "analyse_job
     (example_engine\<lparr>settings := (settings example_engine)\<lparr>keyword_match_threshold := None\<rparr>\<rparr>)
     (example_runtime (ChatChoices [Some ''I cannot answer that.''])) example_job
     = Inl (KeyError ''keyword_match_threshold'')
   \<and> map_job_to_programs
     (example_engine\<lparr>settings := (settings example_engine)\<lparr>keyword_match_threshold := None\<rparr>\<rparr>)
     (example_runtime (ChatChoices [Some ''I cannot answer that.''])) example_job
     = Inr (create_fallback_mapping
              (example_runtime (ChatChoices [Some ''I cannot answer that.''])) example_job)
   \<and> (\<exists>r. map_job_to_programs example_engine
              (example_runtime (ChatChoices [Some ''I cannot answer that.''])) example_job
            = Inr r
          \<and> map fst r = [''job_id'', ''mapped_programs'', ''confidence_score'', ''reasoning'',
                           ''keywords_found'', ''mapped_at'', ''source'']
          \<and> dict_get r ''job_id'' JNull = JStr ''ig_1042'')"
proof -
  let ?eng = "example_engine\<lparr>settings :=
                 (settings example_engine)\<lparr>keyword_match_threshold := None\<rparr>\<rparr>"
  let ?rt = "example_runtime (ChatChoices [Some ''I cannot answer that.''])"
  have raised: "analyse_job ?eng ?rt example_job = Inl (KeyError ''keyword_match_threshold'')"
    by code_simp
  have id: "dict_get example_job ''job_id'' JNull = JStr ''ig_1042''"
    by (simp add: example_job_def dict_get_def)
  from map_job_never_raises [of ?eng ?rt example_job] raised
  have first: "map_job_to_programs ?eng ?rt example_job
                 = Inr (create_fallback_mapping ?rt example_job)"
    by auto
  from map_job_never_raises [of example_engine ?rt example_job, unfolded id]
  have second: "\<exists>r. map_job_to_programs example_engine ?rt example_job = Inr r
          \<and> map fst r = [''job_id'', ''mapped_programs'', ''confidence_score'', ''reasoning'',
                           ''keywords_found'', ''mapped_at'', ''source'']
          \<and> dict_get r ''job_id'' JNull = JStr ''ig_1042''"
    by (elim exE conjE) (intro exI conjI; assumption)
  show ?thesis
    using raised first second by blast
qed

text \<open>
  Claim C4, as the code has it. A missing dictionary file loads as the empty dictionary.
  With an empty dictionary the keyword strategy returns, for every job, a result with no
  mapped program and confidence 0.0, and every result of \<open>map_job_to_programs\<close> either
  comes from the semantic tier (source \<open>ai_analysis\<close>, holding what the service
  answered) or has no mapped program.
\<close>

theorem missing_dictionary_fail_open:
  "load_programs_dictionary (Inl FileNotFoundError) = Inr []
   \<and> (programs_dict eng = [] \<longrightarrow>
        (\<exists>r. keyword_based_mapping eng rt job_data = Inr r
            \<and> dict_get r ''mapped_programs'' JNull = JArr []
            \<and> dict_get r ''confidence_score'' JNull = JNum 0.0)
      \<and> (\<exists>r. map_job_to_programs eng rt job_data = Inr r
            \<and> (dict_get r ''source'' JNull = JStr ''ai_analysis''
               \<or> dict_get r ''mapped_programs'' JNull = JArr [])))"
proof (intro conjI impI)
  show "load_programs_dictionary (Inl FileNotFoundError) = Inr []"
    by (simp add: load_programs_dictionary_def)
next
  assume e: "programs_dict eng = []"
  from keyword_empty_dictionary [OF e]
  show "\<exists>r. keyword_based_mapping eng rt job_data = Inr r
            \<and> dict_get r ''mapped_programs'' JNull = JArr []
            \<and> dict_get r ''confidence_score'' JNull = JNum 0.0"
    by simp
next
  assume e: "programs_dict eng = []"
  show "\<exists>r. map_job_to_programs eng rt job_data = Inr r
            \<and> (dict_get r ''source'' JNull = JStr ''ai_analysis''
               \<or> dict_get r ''mapped_programs'' JNull = JArr [])"
  proof (cases "analyse_job eng rt job_data")
    case (Inl x)
    then show ?thesis by (simp add: map_job_cases fallback_fields)
  next
    case (Inr r)
    then obtain c where c: "parse_ai_response eng rt c job_data = Inr r"
      by (auto simp: analyse_job_def split: sum.splits chat_outcome.splits list.splits)
    show ?thesis
    proof (cases "ai_json rt c")
      case None
      with c keyword_empty_dictionary [OF e, of rt job_data] Inr show ?thesis
        by (auto simp: parse_ai_response_def map_job_cases)
    next
      case (Some parsed)
      with c ai_result_source [OF Some, of eng job_data] Inr show ?thesis
        by (auto simp: map_job_cases)
    qed
  qed
qed

theorem missing_dictionary_fail_open_witness:
  "load_programs_dictionary (Inl FileNotFoundError) = Inr []
   \<and> (\<exists>r. keyword_based_mapping (example_engine\<lparr>programs_dict := []\<rparr>)
             (example_runtime (ChatRaises APIError)) example_job = Inr r
          \<and> dict_get r ''mapped_programs'' JNull = JArr []
          \<and> dict_get r ''confidence_score'' JNull = JNum 0.0)
   \<and> (\<exists>r. map_job_to_programs (example_engine\<lparr>programs_dict := []\<rparr>)
             (example_runtime (ChatRaises APIError)) example_job = Inr r
          \<and> dict_get r ''mapped_programs'' JNull = JArr [])"
proof -
  let ?eng = "example_engine\<lparr>programs_dict := []\<rparr>"
  let ?rt = "example_runtime (ChatRaises APIError)"
  have empty: "programs_dict ?eng = []" by simp
  have fb: "map_job_to_programs ?eng ?rt example_job
              = Inr (create_fallback_mapping ?rt example_job)"
    by code_simp
  from missing_dictionary_fail_open [of ?eng ?rt example_job] empty
  show ?thesis by (simp add: fb fallback_fields)
qed

text \<open>
  Claim C4 as stated fails for a file that is present and is not JSON: the handler of
  \<open>_load_programs_dictionary\<close> names \<open>FileNotFoundError\<close> only, so the
  \<open>JSONDecodeError\<close> leaves the function.
\<close>

theorem dictionary_load_counterexample:
  "load_programs_dictionary (Inl JSONDecodeError) = Inl JSONDecodeError"
  by (simp add: load_programs_dictionary_def)

text \<open>With an empty dictionary the semantic tier still reports what the service answers.\<close>

lemma semantic_result_with_empty_dictionary:
  \<open>map_job_to_programs (example_engine\<lparr>programs_dict := []\<rparr>)
     ((example_runtime (ChatChoices [Some ''{"mapped_programs": ["F35"]}'']))
        \<lparr>json_loads := (\<lambda>s. if s = ''{"mapped_programs": ["F35"]}''
                             then Some (JObj [(''mapped_programs'', JArr [JStr ''F35''])])
                             else None)\<rparr>)
     example_job =
     Inr [(''job_id'', JStr ''ig_1042''),
          (''mapped_programs'', JArr [JStr ''F35'']),
          (''confidence_score'', JNum 0),
          (''reasoning'', JStr []),
          (''keywords_found'', JArr []),
          (''mapped_at'', JStr ''2024-01-01T00:00:00''),
          (''source'', JStr ''ai_analysis'')]\<close>
  by code_simp

subsection \<open>Batch mapping\<close>

lemma map_job_keeps_job_id:
  assumes "map_job_to_programs eng rt job_data = Inr r"
  shows "dict_get r ''job_id'' JNull = dict_get job_data ''job_id'' JNull"
proof (cases "analyse_job eng rt job_data")
  case (Inl e)
  with assms have "r = create_fallback_mapping rt job_data" by (simp add: map_job_cases)
  then show ?thesis by (simp add: fallback_fields)
next
  case (Inr r')
  with assms have eq: "r' = r" by (simp add: map_job_cases)
  from Inr obtain c where c: "parse_ai_response eng rt c job_data = Inr r'"
    by (auto simp: analyse_job_def split: sum.splits chat_outcome.splits list.splits)
  show ?thesis
  proof (cases "ai_json rt c")
    case None
    with c have "keyword_based_mapping eng rt job_data = Inr r'"
      by (simp add: parse_ai_response_def)
    from keyword_result_fields [OF this] eq show ?thesis by blast
  next
    case (Some parsed)
    from ai_result_source [OF Some, of eng job_data] c eq show ?thesis by auto
  qed
qed

lemma process_jobs_loop_closed:
  "process_jobs_loop eng rts i jobs acc =
     Inr (acc @ map (\<lambda>(k, job). case analyse_job eng (rts k) job of
                                 Inr r \<Rightarrow> r
                               | Inl e \<Rightarrow> create_fallback_mapping (rts k) job)
                (enumerate i jobs))"
  by (induction jobs arbitrary: i acc) (simp_all add: map_job_cases)

text \<open>
  Claim C7. The mapping loop returns one result for each job, in the order of the jobs;
  the \<open>i\<close>-th result carries the \<open>job_id\<close> of the \<open>i\<close>-th job; and it is the result
  of \<open>map_job_to_programs\<close> on that job alone, in the runtime of its own turn, so
  neither another job nor a failure met for another job enters it.
\<close>

theorem batch_mapping_order:
  "\<exists>results. process_jobs_batch eng rts jobs = Inr results
      \<and> length results = length jobs
      \<and> (\<forall>i < length jobs.
            map_job_to_programs eng (rts i) (jobs ! i) = Inr (results ! i)
          \<and> dict_get (results ! i) ''job_id'' JNull = dict_get (jobs ! i) ''job_id'' JNull)"
proof -
  let ?f = "\<lambda>(k, job). case analyse_job eng (rts k) job of
                          Inr r \<Rightarrow> r
                        | Inl e \<Rightarrow> create_fallback_mapping (rts k) job"
  let ?results = "map ?f (enumerate 0 jobs)"
  have batch: "process_jobs_batch eng rts jobs = Inr ?results"
    by (simp add: process_jobs_batch_def process_jobs_loop_closed)
  have len: "length ?results = length jobs" by simp
  have each: "map_job_to_programs eng (rts i) (jobs ! i) = Inr (?results ! i)"
    if "i < length jobs" for i
    using that by (simp add: map_job_cases nth_enumerate_eq)
  have ids: "dict_get (?results ! i) ''job_id'' JNull = dict_get (jobs ! i) ''job_id'' JNull"
    if "i < length jobs" for i
    using map_job_keeps_job_id [OF each [OF that]] .
  show ?thesis
    using batch len each ids by blast
qed

theorem batch_mapping_order_witness:
  "\<exists>results.
     process_jobs_batch example_engine
       (\<lambda>i. if i = 0 then example_runtime (ChatRaises APITimeoutError)
             else example_runtime (ChatChoices [Some ''I cannot answer that.'']))
       [[(''job_id'', JStr ''ig_1041''), (''title'', JStr ''Avionics Technician'')],
        example_job] = Inr results
   \<and> length results = 2
   \<and> dict_get (results ! 0) ''job_id'' JNull = JStr ''ig_1041''
   \<and> dict_get (results ! 1) ''job_id'' JNull = JStr ''ig_1042''"
proof -
  let ?rts = "\<lambda>i::nat. if i = 0 then example_runtime (ChatRaises APITimeoutError)
                        else example_runtime (ChatChoices [Some ''I cannot answer that.''])"
  let ?jobs = "[[(''job_id'', JStr ''ig_1041''), (''title'', JStr ''Avionics Technician'')],
                example_job]"
  have len: "length ?jobs = 2" by simp
  have id0: "dict_get (?jobs ! 0) ''job_id'' JNull = JStr ''ig_1041''"
    by (simp add: dict_get_def)
  have id1: "dict_get (?jobs ! 1) ''job_id'' JNull = JStr ''ig_1042''"
    by (simp add: dict_get_def example_job_def)
  from batch_mapping_order [of example_engine ?rts ?jobs]
  obtain results where r:
    "process_jobs_batch example_engine ?rts ?jobs = Inr results"
    "length results = length ?jobs"
    "\<forall>i < length ?jobs.
        map_job_to_programs example_engine (?rts i) (?jobs ! i) = Inr (results ! i)
      \<and> dict_get (results ! i) ''job_id'' JNull = dict_get (?jobs ! i) ''job_id'' JNull"
    by blast
  from r(3) len have "dict_get (results ! 0) ''job_id'' JNull
                        = dict_get (?jobs ! 0) ''job_id'' JNull"
    by (metis zero_less_numeral)
  moreover from r(3) len have "dict_get (results ! 1) ''job_id'' JNull
                                 = dict_get (?jobs ! 1) ''job_id'' JNull"
    by (metis one_less_numeral_iff semiring_norm(76))
  ultimately show ?thesis
    using r(1,2) len id0 id1 by (intro exI [of _ results]) simp
qed

subsection \<open>Normalization\<close>

lemma build_normalized_keys:
  assumes "build_normalized rt job_data = Inr n"
  shows "map fst n = [''job_id'', ''title'', ''company'', ''location'', ''clearance_level'',
                      ''description'', ''url'', ''posted_date'', ''source'', ''scraped_at'',
                      ''normalized_at'']"
  using assms by (auto simp: build_normalized_def split: sum.splits)

lemma build_normalized_passes:
  assumes "build_normalized rt job_data = Inr n"
  shows "map_of n ''source'' = Some (dict_get job_data ''source'' (JStr []))"
    and "map_of n ''scraped_at'' = Some (dict_get job_data ''scraped_at'' (JStr (clock_iso rt)))"
  using assms by (auto simp: build_normalized_def split: sum.splits)

lemma normalize_job_cases:
  "normalize_job rt job_data =
     Inr (case build_normalized rt job_data of Inr n \<Rightarrow> Some n | Inl e \<Rightarrow> None)"
  by (simp add: normalize_job_def split: sum.splits)

lemma normalize_loop_closed:
  "normalize_loop rts i jobs acc =
     Inr (acc @ List.map_filter
                  (\<lambda>(k, job). case normalize_job (rts k) job of
                                Inr (Some n) \<Rightarrow> Some n | _ \<Rightarrow> None)
                  (enumerate i jobs))"
proof (induction jobs arbitrary: i acc)
  case Nil
  then show ?case by (simp add: List.map_filter_simps)
next
  case (Cons job jobs)
  show ?case
  proof (cases "build_normalized (rts i) job")
    case (Inl e)
    then show ?thesis
      by (simp add: Cons.IH normalize_job_cases List.map_filter_simps)
  next
    case (Inr n)
    from build_normalized_keys [OF Inr] have "n \<noteq> []" by auto
    with Inr show ?thesis
      by (simp add: Cons.IH normalize_job_cases List.map_filter_simps)
  qed
qed

lemma example_normalized:
  "normalize_job (example_runtime outcome) example_raw =
     Inr (Some [(''job_id'', JStr ''ig_1042''),
                (''title'', JStr ''Systems Engineer''),
                (''company'', JStr ''Lockheed Martin''),
                (''location'', JStr []),
                (''clearance_level'', JStr ''Secret''),
                (''description'',
                   JStr ''Requires active Secret clearance, work on F-35 program avionics''),
                (''url'', JStr []),
                (''posted_date'', JStr ''2024-01-01T00:00:00''),
                (''source'', JStr ''insight_global''),
                (''scraped_at'', JStr ''2023-12-31T08:00:00''),
                (''normalized_at'', JStr ''2024-01-01T00:00:00'')])"
  by code_simp

text \<open>
  Claim C8. For every raw record (a dictionary, whatever JSON values its fields hold)
  \<open>normalize_job\<close> raises nothing and returns \<open>None\<close> or a dictionary with the eleven
  fields of a normalized job; the normalization loop returns, in the order of the input,
  the normalized jobs of the records that were not discarded, and nothing else.
\<close>

theorem normalization_total_and_ordered:
  "(\<exists>r. normalize_job rt job_data = Inr r)
   \<and> (\<forall>n. normalize_job rt job_data = Inr (Some n) \<longrightarrow>
          map fst n = [''job_id'', ''title'', ''company'', ''location'', ''clearance_level'',
                       ''description'', ''url'', ''posted_date'', ''source'', ''scraped_at'',
                       ''normalized_at''])
   \<and> normalize_loop rts 0 jobs [] =
       Inr (List.map_filter
              (\<lambda>(i, job). case normalize_job (rts i) job of
                            Inr (Some n) \<Rightarrow> Some n | _ \<Rightarrow> None)
              (enumerate 0 jobs))"
proof (intro conjI allI impI)
  show "\<exists>r. normalize_job rt job_data = Inr r"
    by (simp add: normalize_job_cases)
next
  fix n assume "normalize_job rt job_data = Inr (Some n)"
  then have "build_normalized rt job_data = Inr n"
    by (simp add: normalize_job_cases split: sum.splits)
  then show "map fst n = [''job_id'', ''title'', ''company'', ''location'',
                          ''clearance_level'', ''description'', ''url'', ''posted_date'',
                          ''source'', ''scraped_at'', ''normalized_at'']"
    by (rule build_normalized_keys)
next
  show "normalize_loop rts 0 jobs [] =
       Inr (List.map_filter
              (\<lambda>(i, job). case normalize_job (rts i) job of
                            Inr (Some n) \<Rightarrow> Some n | _ \<Rightarrow> None)
              (enumerate 0 jobs))"
    by (simp add: normalize_loop_closed)
qed

theorem normalization_total_and_ordered_witness:
  "(\<exists>r. normalize_job (example_runtime (ChatRaises APIError)) [(''title'', JNum 3)] = Inr r)
   \<and> normalize_loop (\<lambda>i. example_runtime (ChatRaises APIError)) 0
       [[(''job_id'', JStr ''A 1'')], [(''title'', JNum 3)], [(''job_id'', JStr ''B/2'')]] []
     = Inr [[(''job_id'', JStr ''a_1''), (''title'', JStr []), (''company'', JStr []),
             (''location'', JStr []), (''clearance_level'', JNull),
             (''description'', JStr []), (''url'', JStr []),
             (''posted_date'', JStr ''2024-01-01T00:00:00''), (''source'', JStr []),
             (''scraped_at'', JStr ''2024-01-01T00:00:00''),
             (''normalized_at'', JStr ''2024-01-01T00:00:00'')],
            [(''job_id'', JStr ''b_2''), (''title'', JStr []), (''company'', JStr []),
             (''location'', JStr []), (''clearance_level'', JNull),
             (''description'', JStr []), (''url'', JStr []),
             (''posted_date'', JStr ''2024-01-01T00:00:00''), (''source'', JStr []),
             (''scraped_at'', JStr ''2024-01-01T00:00:00''),
             (''normalized_at'', JStr ''2024-01-01T00:00:00'')]]"
proof -
  let ?rts = "\<lambda>i::nat. example_runtime (ChatRaises APIError)"
  let ?jobs = "[[(''job_id'', JStr ''A 1'')], [(''title'', JNum 3)], [(''job_id'', JStr ''B/2'')]]"
  have kept: "List.map_filter
              (\<lambda>(i, job). case normalize_job (?rts i) job of
                            Inr (Some n) \<Rightarrow> Some n | _ \<Rightarrow> None)
              (enumerate 0 ?jobs)
      = [[(''job_id'', JStr ''a_1''), (''title'', JStr []), (''company'', JStr []),
             (''location'', JStr []), (''clearance_level'', JNull),
             (''description'', JStr []), (''url'', JStr []),
             (''posted_date'', JStr ''2024-01-01T00:00:00''), (''source'', JStr []),
             (''scraped_at'', JStr ''2024-01-01T00:00:00''),
             (''normalized_at'', JStr ''2024-01-01T00:00:00'')],
            [(''job_id'', JStr ''b_2''), (''title'', JStr []), (''company'', JStr []),
             (''location'', JStr []), (''clearance_level'', JNull),
             (''description'', JStr []), (''url'', JStr []),
             (''posted_date'', JStr ''2024-01-01T00:00:00''), (''source'', JStr []),
             (''scraped_at'', JStr ''2024-01-01T00:00:00''),
             (''normalized_at'', JStr ''2024-01-01T00:00:00'')]]"
    by code_simp
  from normalization_total_and_ordered
         [of "example_runtime (ChatRaises APIError)" "[(''title'', JNum 3)]" ?rts ?jobs]
  show ?thesis unfolding kept by blast
qed

text \<open>
  Claim C9. In every normalized job the fields \<open>source\<close> and \<open>scraped_at\<close> are those
  of the raw record, unchanged, whatever the other fields are. (Where the raw record has
  no \<open>source\<close> the normalized job has the empty string, and where it has no
  \<open>scraped_at\<close> the normalized job has the time of the normalization.)
\<close>

theorem source_and_scraped_at_pass_through:
  assumes "normalize_job rt job_data = Inr (Some n)"
  shows "(\<forall>v. map_of job_data ''source'' = Some v \<longrightarrow> map_of n ''source'' = Some v)
       \<and> (\<forall>v. map_of job_data ''scraped_at'' = Some v \<longrightarrow> map_of n ''scraped_at'' = Some v)
       \<and> (map_of job_data ''source'' = None \<longrightarrow> map_of n ''source'' = Some (JStr []))
       \<and> (map_of job_data ''scraped_at'' = None \<longrightarrow>
            map_of n ''scraped_at'' = Some (JStr (clock_iso rt)))"
proof -
  from assms have b: "build_normalized rt job_data = Inr n"
    by (simp add: normalize_job_cases split: sum.splits)
  show ?thesis
    using build_normalized_passes [OF b] by (simp add: dict_get_def)
qed

theorem source_and_scraped_at_pass_through_witness:
  "\<exists>n. normalize_job (example_runtime (ChatRaises APIError)) example_raw = Inr (Some n)
      \<and> map_of n ''source'' = Some (JStr ''insight_global'')
      \<and> map_of n ''scraped_at'' = Some (JStr ''2023-12-31T08:00:00'')"
proof -
  have s: "map_of example_raw ''source'' = Some (JStr ''insight_global'')"
    by (simp add: example_raw_def)
  have t: "map_of example_raw ''scraped_at'' = Some (JStr ''2023-12-31T08:00:00'')"
    by (simp add: example_raw_def)
  from source_and_scraped_at_pass_through [OF example_normalized [of "ChatRaises APIError"]]
       s t example_normalized [of "ChatRaises APIError"]
  show ?thesis by blast
qed

end
